theory Spec2Isabelle
  imports Complex_Main
begin

section \<open>The geometry backend of SceneJS (geometryBackend.js)\<close>

text \<open>
  The backend is a closure over five variables (\<open>time\<close>, \<open>canvas\<close>, \<open>geometries\<close>,
  \<open>nextTypeId\<close>, \<open>currentBoundGeo\<close>), a set of event handlers, an evictor callback
  and three node-facing functions. The closure variables become a record, every function
  takes the record and returns it updated, and every call that leaves the backend (a WebGL
  call, a buffer constructor or destructor, a fired event) is appended to a trace kept in the
  same record, so that what was released or exported, and in which order, can be read off.

  Exceptions are values: a function returns \<open>(error + result) \<times> state\<close>, and the state
  next to an error is the state at the moment of the throw (JavaScript does not roll back).
\<close>

subsection \<open>Data\<close>

datatype error =
    NoCanvasActiveException
  | NodeConfigExpectedException
  | InvalidGeometryConfigException
  | AllocationFailure
  | TypeError

text \<open>
  The first three are the classes of \<open>SceneJS.exceptions\<close> the file throws. \<open>TypeError\<close> is
  what the JavaScript runtime throws when a property of \<open>null\<close> or \<open>undefined\<close> is read or
  written. \<open>AllocationFailure\<close> stands for whatever \<open>ctx.memory.allocate\<close> throws when it
  rejects an allocation; that collaborator is not part of the file.
\<close>

record canvas_t =
  canvasId :: string

datatype prim =
  POINTS | LINES | LINE_LOOP | LINE_STRIP | TRIANGLES | TRIANGLE_STRIP | TRIANGLE_FAN

datatype target = ARRAY_BUFFER | ELEMENT_ARRAY_BUFFER

text \<open>An object of \<open>SceneJS._webgl.ArrayBuffer\<close>: a device handle and what the constructor was given.\<close>

record buffer =
  handle :: nat
  target :: target
  numItems :: nat
  itemSize :: nat

text \<open>
  The object literal built by \<open>createGeometry\<close>. The fields \<open>canvas\<close> and \<open>primitive\<close> are
  named \<open>geoCanvas\<close> and \<open>geoPrimitive\<close> here, and \<open>type\<close> is \<open>geoType\<close>, because the closure
  variable \<open>canvas\<close> and the field \<open>data.primitive\<close> have the same names. A buffer field is an
  option since the code tests each for truthiness before use.
\<close>

record geo =
  fixed :: bool
  geoPrimitive :: prim
  geoType :: string
  geoId :: string
  lastUsed :: int
  geoCanvas :: canvas_t
  vertexBuf :: "buffer option"
  normalBuf :: "buffer option"
  indexBuf :: "buffer option"
  texCoordBuf :: "buffer option"

text \<open>
  The \<open>data\<close> argument of \<open>createGeometry\<close>. A field that is \<open>undefined\<close> is \<open>None\<close>. Only the
  lengths of the arrays reach the model (they become \<open>numItems\<close>).
\<close>

record geo_data =
  primitive :: "string option"
  positions :: "real list option"
  normals :: "real list option"
  uv :: "real list option"
  indices :: "nat list option"

text \<open>
  What \<open>GEOMETRY_EXPORTED\<close> carries: the object \<open>drawGeometry\<close> read from the dictionary.
  It is a record of the dictionary or, for a name the dictionary does not hold itself, the
  object that \<open>Object.prototype\<close> has under that name.
\<close>

datatype exported = OwnRecord geo | InheritedObject string

datatype out_event = SHADER_ACTIVATE | GEOMETRY_EXPORTED exported

datatype effect =
    FireEvent out_event
  | DisableVertexAttribArray nat
  | NewArrayBuffer buffer
  | BufferDestroy nat
  | BufferBind nat
  | DrawElements prim nat
  | Flush
  | SetLastUsed string int

text \<open>
  \<open>geometries\<close> is a JavaScript object used as a dictionary. It is an association list in
  insertion order (the order \<open>for ... in\<close> enumerates string keys that are not array
  indices, and every key written here contains a colon). A key whose value is \<open>null\<close> is a
  pair \<open>(k, None)\<close>: \<open>destroyGeometry\<close> assigns \<open>null\<close> and never deletes a key.
  Reading a key that is absent gives \<open>undefined\<close>, which is \<open>None\<close> of the outer option,
  unless \<open>Object.prototype\<close> has a property of that name (\<open>object_prototype\<close> below).
  Those properties are not enumerable, so \<open>for ... in\<close> does not see them, and none of
  their names contains a colon, so the keys that \<open>findGeometry\<close> and \<open>createGeometry\<close>
  build never meet them; \<open>drawGeometry\<close> takes its key from the caller and does.
  \<open>SetLastUsed n t\<close> in the trace is the assignment \<open>geo.lastUsed = time\<close> landing on
  the object inherited under the name \<open>n\<close>.

  \<open>document\<close> lists the ids for which \<open>document.getElementById\<close> finds an element.
  \<open>nextHandle\<close> numbers the device buffers the constructor creates.
\<close>

record state =
  time :: int
  canvas :: "canvas_t option"
  geometries :: "(string \<times> geo option) list"
  currentBoundGeo :: "string option"
  document :: "string list"
  nextHandle :: nat
  trace :: "effect list"

datatype event =
    TIME_UPDATED int
  | SCENE_ACTIVATED
  | CANVAS_ACTIVATED canvas_t
  | CANVAS_DEACTIVATED
  | SHADER_ACTIVATED
  | SHADER_DEACTIVATED
  | RESET

subsection \<open>The dictionary\<close>

text \<open>\<open>geometries[k] = v\<close>: an existing key keeps its place, a new key goes last.\<close>

fun obj_set :: "(string \<times> 'v) list \<Rightarrow> string \<Rightarrow> 'v \<Rightarrow> (string \<times> 'v) list" where
  "obj_set [] k v = [(k, v)]"
| "obj_set ((k', v') # m) k v =
     (if k' = k then (k, v) # m else (k', v') # obj_set m k v)"

text \<open>
  \<open>geometries[k]\<close> among the own keys, with \<open>undefined\<close> and \<open>null\<close> both read as
  "no object".
\<close>

definition obj_ref :: "(string \<times> 'v option) list \<Rightarrow> string \<Rightarrow> 'v option" where
  "obj_ref m k = (case map_of m k of None \<Rightarrow> None | Some v \<Rightarrow> v)"

text \<open>
  The property names of \<open>Object.prototype\<close>: those of the language standard and the
  \<open>__x__\<close> names of the browsers. Under each of them a plain object such as
  \<open>geometries\<close> answers with a function or, for \<open>__proto__\<close>, with the prototype itself:
  an object that is not \<open>null\<close>, can take a property, and has no \<open>indexBuf\<close>.
\<close>

definition object_prototype :: "string list" where
  "object_prototype =
     [''constructor'', ''toString'', ''toLocaleString'', ''valueOf'', ''hasOwnProperty'',
      ''isPrototypeOf'', ''propertyIsEnumerable'', ''__proto__'', ''__defineGetter__'',
      ''__defineSetter__'', ''__lookupGetter__'', ''__lookupSetter__'']"

definition emit :: "state \<Rightarrow> effect list \<Rightarrow> state" where
  "emit s es = s\<lparr>trace := trace s @ es\<rparr>"

definition getElementById :: "state \<Rightarrow> string \<Rightarrow> bool" where
  "getElementById s i = (i \<in> set (document s))"

subsection \<open>destroyGeometry (lines 97 to 117)\<close>

text \<open>\<open>if (b) { b.destroy(); }\<close>\<close>

definition destroy_if :: "state \<Rightarrow> buffer option \<Rightarrow> state" where
  "destroy_if s b = (case b of None \<Rightarrow> s | Some x \<Rightarrow> emit s [BufferDestroy (handle x)])"

text \<open>
  The body of \<open>if (document.getElementById(geo.canvas.canvasId))\<close>. The third test reads
  \<open>geo.normalBuf\<close> and then calls \<open>geo.indexBuf.destroy()\<close>, as the source does; with no
  index buffer that call is a \<open>TypeError\<close>.
\<close>

definition release_buffers :: "state \<Rightarrow> geo \<Rightarrow> (error + unit) \<times> state" where
  "release_buffers s g =
     (let s1 = destroy_if s (vertexBuf g);
          s2 = destroy_if s1 (normalBuf g)
      in case normalBuf g of
           None \<Rightarrow> (Inr (), destroy_if s2 (texCoordBuf g))
         | Some _ \<Rightarrow>
             (case indexBuf g of
                None \<Rightarrow> (Inl TypeError, s2)
              | Some ib \<Rightarrow>
                  (Inr (), destroy_if (emit s2 [BufferDestroy (handle ib)]) (texCoordBuf g))))"

text \<open>
  The argument is a reference that may be \<open>null\<close> (the reset handler passes
  \<open>geometries[geoId]\<close>); the first statement reads \<open>geo.type\<close>. Logging is not recorded.
\<close>

definition destroyGeometry :: "state \<Rightarrow> geo option \<Rightarrow> (error + unit) \<times> state" where
  "destroyGeometry s r =
     (case r of
        None \<Rightarrow> (Inl TypeError, s)
      | Some g \<Rightarrow>
          (let s1 = (if currentBoundGeo s = Some (geoId g)
                     then s\<lparr>currentBoundGeo := None\<rparr> else s)
           in if getElementById s1 (canvasId (geoCanvas g)) then
                (case release_buffers s1 g of
                   (Inl e, s2) \<Rightarrow> (Inl e, s2)
                 | (Inr _, s2) \<Rightarrow>
                     (Inr (), s2\<lparr>geometries := obj_set (geometries s2) (geoId g) None\<rparr>))
              else (Inr (), s1\<lparr>geometries := obj_set (geometries s1) (geoId g) None\<rparr>)))"

subsection \<open>Event handlers (lines 43 to 91)\<close>

text \<open>The loop of the reset handler, over the keys in enumeration order.\<close>

fun reset_loop :: "state \<Rightarrow> string list \<Rightarrow> (error + unit) \<times> state" where
  "reset_loop s [] = (Inr (), s)"
| "reset_loop s (k # ks) =
     (case destroyGeometry s (obj_ref (geometries s) k) of
        (Inl e, s') \<Rightarrow> (Inl e, s')
      | (Inr _, s') \<Rightarrow> reset_loop s' ks)"

fun onEvent :: "state \<Rightarrow> event \<Rightarrow> (error + unit) \<times> state" where
  "onEvent s (TIME_UPDATED t) = (Inr (), s\<lparr>time := t\<rparr>)"
| "onEvent s SCENE_ACTIVATED = (Inr (), s\<lparr>canvas := None, currentBoundGeo := None\<rparr>)"
| "onEvent s (CANVAS_ACTIVATED c) = (Inr (), s\<lparr>canvas := Some c, currentBoundGeo := None\<rparr>)"
| "onEvent s CANVAS_DEACTIVATED = (Inr (), s\<lparr>canvas := None, currentBoundGeo := None\<rparr>)"
| "onEvent s SHADER_ACTIVATED = (Inr (), s\<lparr>currentBoundGeo := None\<rparr>)"
| "onEvent s SHADER_DEACTIVATED = (Inr (), s\<lparr>currentBoundGeo := None\<rparr>)"
| "onEvent s RESET =
     (case reset_loop s (map fst (geometries s)) of
        (Inl e, s') \<Rightarrow> (Inl e, s')
      | (Inr _, s') \<Rightarrow>
          (Inr (), s'\<lparr>canvas := None, geometries := [], currentBoundGeo := None\<rparr>))"

text \<open>A run of events; a handler that throws does not stop the events after it.\<close>

fun onEvents :: "state \<Rightarrow> event list \<Rightarrow> state" where
  "onEvents s [] = s"
| "onEvents s (e # es) = onEvents (snd (onEvent s e)) es"

subsection \<open>The evictor (lines 123 to 143)\<close>

text \<open>
  The \<open>for ... in\<close> loop with its two variables \<open>earliest\<close> and \<open>evictee\<close>. Reading
  \<open>geo.lastUsed\<close> of a key whose value is \<open>null\<close> is a \<open>TypeError\<close>.
\<close>

fun scan :: "state \<Rightarrow> string list \<Rightarrow> int \<Rightarrow> geo option \<Rightarrow> error + geo option" where
  "scan s [] earliest evictee = Inr evictee"
| "scan s (k # ks) earliest evictee =
     (if k \<noteq> [] then
        (case obj_ref (geometries s) k of
           None \<Rightarrow> Inl TypeError
         | Some g \<Rightarrow>
             if lastUsed g < earliest \<and> getElementById s (canvasId (geoCanvas g))
             then scan s ks (lastUsed g) (Some g)
             else scan s ks earliest evictee)
      else scan s ks earliest evictee)"

definition evictor :: "state \<Rightarrow> (error + bool) \<times> state" where
  "evictor s =
     (case scan s (map fst (geometries s)) (time s) None of
        Inl e \<Rightarrow> (Inl e, s)
      | Inr None \<Rightarrow> (Inr False, s)
      | Inr (Some g) \<Rightarrow>
          (case destroyGeometry s (Some g) of
             (Inl e, s') \<Rightarrow> (Inl e, s')
           | (Inr _, s') \<Rightarrow> (Inr True, s')))"

subsection \<open>createArrayBuffer and getPrimitiveType (lines 155 to 192)\<close>

text \<open>
  \<open>ctx.memory.allocate\<close> is not part of the file. It is a parameter \<open>allow\<close>: told the
  description of the buffer, it either runs the callback, which constructs the buffer, or
  throws. Calls of the evictor are steps of their own (\<open>evictor\<close>).
\<close>

definition createArrayBuffer ::
  "(string \<Rightarrow> bool) \<Rightarrow> string \<Rightarrow> state \<Rightarrow> target \<Rightarrow> nat \<Rightarrow> nat \<Rightarrow> (error + buffer) \<times> state" where
  "createArrayBuffer allow description s tg n sz =
     (if allow description then
        (let b = \<lparr>handle = nextHandle s, target = tg, numItems = n, itemSize = sz\<rparr>
         in (Inr b, (emit s [NewArrayBuffer b])\<lparr>nextHandle := Suc (nextHandle s)\<rparr>))
      else (Inl AllocationFailure, s))"

text \<open>
  One call \<open>createArrayBuffer(d, context, tg, new A(data.f), data.f.length, sz, usage)\<close>: the
  arguments are evaluated first, and \<open>data.f.length\<close> of an absent array is a \<open>TypeError\<close>.
\<close>

definition alloc_from ::
  "(string \<Rightarrow> bool) \<Rightarrow> string \<Rightarrow> state \<Rightarrow> target \<Rightarrow> 'a list option \<Rightarrow> nat \<Rightarrow> (error + buffer) \<times> state" where
  "alloc_from allow description s tg arr sz =
     (case arr of
        None \<Rightarrow> (Inl TypeError, s)
      | Some xs \<Rightarrow> createArrayBuffer allow description s tg (length xs) sz)"

definition getPrimitiveType :: "string \<Rightarrow> error + prim" where
  "getPrimitiveType ty =
     (if ty = ''points'' then Inr POINTS
      else if ty = ''lines'' then Inr LINES
      else if ty = ''line-loop'' then Inr LINE_LOOP
      else if ty = ''line-strip'' then Inr LINE_STRIP
      else if ty = ''triangles'' then Inr TRIANGLES
      else if ty = ''triangle-strip'' then Inr TRIANGLE_STRIP
      else if ty = ''triangle-fan'' then Inr TRIANGLE_FAN
      else Inl InvalidGeometryConfigException)"

subsection \<open>The node-facing functions (lines 194 to 342)\<close>

definition findGeometry :: "state \<Rightarrow> string \<Rightarrow> (error + string option) \<times> state" where
  "findGeometry s ty =
     (case canvas s of
        None \<Rightarrow> (Inl NoCanvasActiveException, s)
      | Some c \<Rightarrow>
          (let gid = canvasId c @ '':'' @ ty
           in (Inr (if obj_ref (geometries s) gid \<noteq> None then Some gid else None), s)))"

text \<open>The \<open>catch\<close> block: the four local variables, in the order the source tests them.\<close>

definition catch_block ::
  "state \<Rightarrow> buffer option \<Rightarrow> buffer option \<Rightarrow> buffer option \<Rightarrow> buffer option \<Rightarrow> state" where
  "catch_block s vb nb tb ib = destroy_if (destroy_if (destroy_if (destroy_if s vb) nb) tb) ib"

text \<open>The optional texture coordinate buffer: \<open>if (data.uv) { texCoordBuf = ... }\<close>.\<close>

definition alloc_uv ::
  "(string \<Rightarrow> bool) \<Rightarrow> state \<Rightarrow> geo_data \<Rightarrow> (error + buffer option) \<times> state" where
  "alloc_uv allow s d =
     (case uv d of
        None \<Rightarrow> (Inr None, s)
      | Some xs \<Rightarrow>
          (case createArrayBuffer allow ''geometry texture buffer'' s ARRAY_BUFFER (length xs) 2 of
             (Inl e, s') \<Rightarrow> (Inl e, s')
           | (Inr b, s') \<Rightarrow> (Inr (Some b), s')))"

definition createGeometry ::
  "(string \<Rightarrow> bool) \<Rightarrow> state \<Rightarrow> string \<Rightarrow> geo_data \<Rightarrow> (error + string) \<times> state" where
  "createGeometry allow s ty d =
     (case canvas s of
        None \<Rightarrow> (Inl NoCanvasActiveException, s)
      | Some c \<Rightarrow>
          if primitive d = None \<or> primitive d = Some [] then (Inl NodeConfigExpectedException, s)
          else
            (let gid = canvasId c @ '':'' @ ty;
                 pr = (case primitive d of None \<Rightarrow> [] | Some x \<Rightarrow> x) in
             case alloc_from allow ''geometry vertex buffer'' s ARRAY_BUFFER (positions d) 3 of
               (Inl e, s1) \<Rightarrow> (Inl e, catch_block s1 None None None None)
             | (Inr vb, s1) \<Rightarrow>
             (case alloc_from allow ''geometry normal buffer'' s1 ARRAY_BUFFER (normals d) 3 of
               (Inl e, s2) \<Rightarrow> (Inl e, catch_block s2 (Some vb) None None None)
             | (Inr nb, s2) \<Rightarrow>
             (case alloc_uv allow s2 d of
               (Inl e, s3) \<Rightarrow> (Inl e, catch_block s3 (Some vb) (Some nb) None None)
             | (Inr tb, s3) \<Rightarrow>
             (case alloc_from allow ''geometry index buffer'' s3 ELEMENT_ARRAY_BUFFER (indices d) 1 of
               (Inl e, s4) \<Rightarrow> (Inl e, catch_block s4 (Some vb) (Some nb) tb None)
             | (Inr ib, s4) \<Rightarrow>
             (case getPrimitiveType pr of
               Inl e \<Rightarrow> (Inl e, catch_block s4 (Some vb) (Some nb) tb (Some ib))
             | Inr p \<Rightarrow>
                 (let g = \<lparr>fixed = True, geoPrimitive = p, geoType = ty, geoId = gid,
                           lastUsed = time s4, geoCanvas = c,
                           vertexBuf = Some vb, normalBuf = Some nb,
                           indexBuf = Some ib, texCoordBuf = tb\<rparr>
                  in (Inr gid, s4\<lparr>geometries := obj_set (geometries s4) gid (Some g)\<rparr>))))))))"

text \<open>
  \<open>drawGeometry\<close>. \<open>geo.lastUsed = time\<close> is the first use of the looked-up reference, so
  an identifier that is absent or \<open>null\<close> throws there, after the event was fired. The
  object is shared with the dictionary, so the assignment is an update of the entry.

  An identifier that is no own key but a name of \<open>Object.prototype\<close> gives an object: the
  assignment succeeds on it, the block of the test \<open>currentBoundGeo != geoId\<close> disables
  the eight slots and fires the export, and \<open>geo.indexBuf.bind()\<close> throws; when the
  marker is that name, \<open>geo.indexBuf.numItems\<close> in the draw call throws.
\<close>

definition drawGeometry :: "state \<Rightarrow> string \<Rightarrow> (error + unit) \<times> state" where
  "drawGeometry s gid =
     (case canvas s of
        None \<Rightarrow> (Inl NoCanvasActiveException, s)
      | Some c \<Rightarrow>
          (let s1 = emit s [FireEvent SHADER_ACTIVATE] in
           case obj_ref (geometries s1) gid of
             None \<Rightarrow>
               if map_of (geometries s1) gid = None \<and> gid \<in> set object_prototype then
                 (let s2 = emit s1 [SetLastUsed gid (time s1)]
                  in (Inl TypeError,
                      if currentBoundGeo s2 \<noteq> Some gid
                      then emit s2 (map DisableVertexAttribArray [0..<8]
                                     @ [FireEvent (GEOMETRY_EXPORTED (InheritedObject gid))])
                      else s2))
               else (Inl TypeError, s1)
           | Some g0 \<Rightarrow>
               (let g = g0\<lparr>lastUsed := time s1\<rparr>;
                    s2 = s1\<lparr>geometries := obj_set (geometries s1) gid (Some g)\<rparr>
                in case indexBuf g of
                     None \<Rightarrow>
                       (Inl TypeError,
                        if currentBoundGeo s2 \<noteq> Some gid
                        then emit s2 (map DisableVertexAttribArray [0..<8]
                                       @ [FireEvent (GEOMETRY_EXPORTED (OwnRecord g))])
                        else s2)
                   | Some ib \<Rightarrow>
                       (let s3 = (if currentBoundGeo s2 \<noteq> Some gid
                                  then (emit s2 (map DisableVertexAttribArray [0..<8]
                                                  @ [FireEvent (GEOMETRY_EXPORTED (OwnRecord g)),
                                                     BufferBind (handle ib)]))
                                       \<lparr>currentBoundGeo := Some gid\<rparr>
                                  else s2);
                            s4 = emit s3 [DrawElements (geoPrimitive g) (numItems ib), Flush]
                        in if \<not> fixed g then
                             (case destroyGeometry s4 (Some g) of
                                (Inl e, s5) \<Rightarrow> (Inl e, s5)
                              | (Inr _, s5) \<Rightarrow> (Inr (), s5\<lparr>currentBoundGeo := None\<rparr>))
                           else (Inr (), s4)))))"

text \<open>The closure as the installer leaves it: no canvas, no geometry, nothing bound.\<close>

definition init :: "int \<Rightarrow> string list \<Rightarrow> state" where
  "init t doc = \<lparr>time = t, canvas = None, geometries = [], currentBoundGeo = None,
                 document = doc, nextHandle = 0, trace = []\<rparr>"

subsection \<open>Reading the trace\<close>

text \<open>The number of \<open>GEOMETRY_EXPORTED\<close> events in a stretch of the trace.\<close>

fun is_export :: "effect \<Rightarrow> bool" where
  "is_export (FireEvent (GEOMETRY_EXPORTED x)) = True"
| "is_export _ = False"

definition exports :: "effect list \<Rightarrow> nat" where
  "exports tr = length (filter is_export tr)"

subsection \<open>The eviction policy in the words of its description\<close>




subsection \<open>Example inputs\<close>

text \<open>
  One canvas whose element is in the document, a triangle, and the same triangle with a
  primitive the switch does not know. The states are reached from \<open>init\<close> by the calls
  written in their definitions; every allocation is allowed.
\<close>

definition ex_canvas :: canvas_t where
  "ex_canvas = \<lparr>canvasId = ''c1''\<rparr>"

definition ex_tri :: geo_data where
  "ex_tri = \<lparr>primitive = Some ''triangles'',
             positions = Some [0, 0, 0, 1, 0, 0, 0, 1, 0],
             normals = Some [0, 0, 1, 0, 0, 1, 0, 0, 1],
             uv = None,
             indices = Some [0, 1, 2]\<rparr>"

definition ex_hex :: geo_data where
  "ex_hex = ex_tri\<lparr>primitive := Some ''hexagon''\<rparr>"

definition ex_s0 :: state where
  "ex_s0 = snd (onEvent (init 0 [''c1'']) (CANVAS_ACTIVATED ex_canvas))"

definition ex_sA :: state where
  "ex_sA = snd (createGeometry (\<lambda>_. True) ex_s0 ''A'' ex_tri)"

definition ex_ibA :: buffer where
  "ex_ibA = \<lparr>handle = 2, target = ELEMENT_ARRAY_BUFFER, numItems = 3, itemSize = 1\<rparr>"

definition ex_gA :: geo where
  "ex_gA = \<lparr>fixed = True, geoPrimitive = TRIANGLES, geoType = ''A'', geoId = ''c1:A'',
            lastUsed = 0, geoCanvas = ex_canvas,
            vertexBuf = Some \<lparr>handle = 0, target = ARRAY_BUFFER, numItems = 9, itemSize = 3\<rparr>,
            normalBuf = Some \<lparr>handle = 1, target = ARRAY_BUFFER, numItems = 9, itemSize = 3\<rparr>,
            indexBuf = Some ex_ibA, texCoordBuf = None\<rparr>"

definition ex_sA1 :: state where
  "ex_sA1 = snd (drawGeometry ex_sA ''c1:A'')"

definition ex_sAA :: state where
  "ex_sAA = snd (createGeometry (\<lambda>_. True) ex_sA ''A'' ex_tri)"

definition ex_gB :: geo where
  "ex_gB = \<lparr>fixed = True, geoPrimitive = TRIANGLES, geoType = ''B'', geoId = ''c1:B'',
            lastUsed = 20, geoCanvas = ex_canvas,
            vertexBuf = Some \<lparr>handle = 3, target = ARRAY_BUFFER, numItems = 9, itemSize = 3\<rparr>,
            normalBuf = Some \<lparr>handle = 4, target = ARRAY_BUFFER, numItems = 9, itemSize = 3\<rparr>,
            indexBuf = Some \<lparr>handle = 5, target = ELEMENT_ARRAY_BUFFER, numItems = 3, itemSize = 1\<rparr>,
            texCoordBuf = None\<rparr>"


text \<open>\<open>c1:A\<close> is drawn at 5 and stays bound; \<open>c1:B\<close> is created at 7; the clock is at 10.\<close>

definition ex_s1 :: state where
  "ex_s1 = (let s1 = snd (onEvent ex_sA (TIME_UPDATED 5));
                s2 = snd (drawGeometry s1 ''c1:A'');
                s3 = snd (onEvent s2 (TIME_UPDATED 7));
                s4 = snd (createGeometry (\<lambda>_. True) s3 ''B'' ex_tri)
            in snd (onEvent s4 (TIME_UPDATED 10)))"

text \<open>\<open>c1:B\<close> is drawn at 5 and stays bound; then the evictor runs once.\<close>

definition ex_s7 :: state where
  "ex_s7 = (let s1 = snd (createGeometry (\<lambda>_. True) ex_sA ''B'' ex_tri);
                s2 = snd (onEvent s1 (TIME_UPDATED 5));
                s3 = snd (drawGeometry s2 ''c1:B'')
            in snd (evictor s3))"

lemmas eval_defs = createGeometry_def alloc_from_def alloc_uv_def createArrayBuffer_def
  getPrimitiveType_def drawGeometry_def destroyGeometry_def release_buffers_def destroy_if_def
  evictor_def obj_ref_def getElementById_def emit_def Let_def
  ex_tri_def ex_gA_def ex_gB_def ex_ibA_def ex_canvas_def

lemmas ex_defs = ex_canvas_def ex_tri_def ex_hex_def ex_s0_def ex_sA_def init_def

section \<open>Properties\<close>

subsection \<open>Field lemmas\<close>

lemma trace_emit [simp]: "trace (emit s es) = trace s @ es"
  and geometries_emit [simp]: "geometries (emit s es) = geometries s"
  and canvas_emit [simp]: "canvas (emit s es) = canvas s"
  and currentBoundGeo_emit [simp]: "currentBoundGeo (emit s es) = currentBoundGeo s"
  and document_emit [simp]: "document (emit s es) = document s"
  and time_emit [simp]: "time (emit s es) = time s"
  and nextHandle_emit [simp]: "nextHandle (emit s es) = nextHandle s"
  by (simp_all add: emit_def)

lemma emit_emit: "emit (emit s xs) ys = emit s (xs @ ys)"
  by (simp add: emit_def)

lemma createArrayBuffer_Inl:
  "createArrayBuffer allow dsc s tg n sz = (Inl e, s') \<Longrightarrow> s' = s \<and> e = AllocationFailure"
  by (auto simp: createArrayBuffer_def Let_def split: if_splits)

lemma createArrayBuffer_Inr:
  "createArrayBuffer allow dsc s tg n sz = (Inr b, s') \<Longrightarrow>
     s' = (emit s [NewArrayBuffer b])\<lparr>nextHandle := Suc (nextHandle s)\<rparr>"
  by (auto simp: createArrayBuffer_def Let_def split: if_splits)

lemma alloc_from_Inl: "alloc_from allow dsc s tg arr sz = (Inl e, s') \<Longrightarrow> s' = s"
  by (auto simp: alloc_from_def split: option.splits dest: createArrayBuffer_Inl)

lemma alloc_from_Inr:
  "alloc_from allow dsc s tg arr sz = (Inr b, s') \<Longrightarrow>
     s' = (emit s [NewArrayBuffer b])\<lparr>nextHandle := Suc (nextHandle s)\<rparr>"
  by (auto simp: alloc_from_def split: option.splits dest: createArrayBuffer_Inr)

lemma alloc_uv_Inl: "alloc_uv allow s d = (Inl e, s') \<Longrightarrow> s' = s"
  by (auto simp: alloc_uv_def split: option.splits prod.splits sum.splits dest: createArrayBuffer_Inl)

lemma alloc_uv_Inr:
  "alloc_uv allow s d = (Inr tb, s') \<Longrightarrow>
     (tb = None \<and> s' = s) \<or>
     (\<exists>b. tb = Some b \<and> s' = (emit s [NewArrayBuffer b])\<lparr>nextHandle := Suc (nextHandle s)\<rparr>)"
  by (auto simp: alloc_uv_def split: option.splits prod.splits sum.splits dest: createArrayBuffer_Inr)

lemma trace_destroy_if [simp]:
  "trace (destroy_if s b) = trace s @ (case b of None \<Rightarrow> [] | Some x \<Rightarrow> [BufferDestroy (handle x)])"
  by (simp add: destroy_if_def split: option.splits)

lemma fields_destroy_if [simp]:
  "geometries (destroy_if s b) = geometries s"
  "canvas (destroy_if s b) = canvas s"
  "currentBoundGeo (destroy_if s b) = currentBoundGeo s"
  "document (destroy_if s b) = document s"
  "time (destroy_if s b) = time s"
  "nextHandle (destroy_if s b) = nextHandle s"
  by (simp_all add: destroy_if_def split: option.splits)

lemma released_shape:
  "\<exists>bs. [] = map NewArrayBuffer bs @ map (\<lambda>b. BufferDestroy (handle b)) bs"
  "\<exists>bs. [NewArrayBuffer a, BufferDestroy (handle a)]
     = map NewArrayBuffer bs @ map (\<lambda>b. BufferDestroy (handle b)) bs"
  "\<exists>bs. [NewArrayBuffer a, NewArrayBuffer b, BufferDestroy (handle a), BufferDestroy (handle b)]
     = map NewArrayBuffer bs @ map (\<lambda>b. BufferDestroy (handle b)) bs"
  "\<exists>bs. [NewArrayBuffer a, NewArrayBuffer b, NewArrayBuffer c,
         BufferDestroy (handle a), BufferDestroy (handle b), BufferDestroy (handle c)]
     = map NewArrayBuffer bs @ map (\<lambda>b. BufferDestroy (handle b)) bs"
  "\<exists>bs. [NewArrayBuffer a, NewArrayBuffer b, NewArrayBuffer c, NewArrayBuffer d,
         BufferDestroy (handle a), BufferDestroy (handle b), BufferDestroy (handle c),
         BufferDestroy (handle d)]
     = map NewArrayBuffer bs @ map (\<lambda>b. BufferDestroy (handle b)) bs"
  by (rule exI[of _ "[]"], simp, rule exI[of _ "[a]"], simp, rule exI[of _ "[a, b]"], simp,
      rule exI[of _ "[a, b, c]"], simp, rule exI[of _ "[a, b, c, d]"], simp)

lemma map_of_obj_set: "map_of (obj_set m k v) k' = (if k' = k then Some v else map_of m k')"
  by (induction m) auto

lemma obj_set_idem: "obj_set (obj_set m k v) k v = obj_set m k v"
  by (induction m) auto

lemma obj_ref_obj_set: "obj_ref (obj_set m k v) k' = (if k' = k then v else obj_ref m k')"
  by (simp add: obj_ref_def map_of_obj_set)

lemma release_buffers_trace:
  "\<exists>hs. trace (snd (release_buffers s g)) = trace s @ map BufferDestroy hs"
proof -
  have e0: "\<exists>hs. [] = map BufferDestroy hs" by simp
  have e1: "\<And>a. \<exists>hs. [BufferDestroy a] = map BufferDestroy hs"
    by (rule_tac x = "[a]" in exI) simp
  have e2: "\<And>a b. \<exists>hs. [BufferDestroy a, BufferDestroy b] = map BufferDestroy hs"
    by (rule_tac x = "[a, b]" in exI) simp
  have e3: "\<And>a b c. \<exists>hs. [BufferDestroy a, BufferDestroy b, BufferDestroy c] = map BufferDestroy hs"
    by (rule_tac x = "[a, b, c]" in exI) simp
  have e4: "\<And>a b c d. \<exists>hs. [BufferDestroy a, BufferDestroy b, BufferDestroy c, BufferDestroy d]
      = map BufferDestroy hs"
    by (rule_tac x = "[a, b, c, d]" in exI) simp
  show ?thesis
    by (auto simp: release_buffers_def Let_def e0 e1 e2 e3 e4 split: option.splits)
qed

lemma release_buffers_fields:
  assumes "release_buffers s g = (r, s')"
  shows "geometries s' = geometries s \<and> canvas s' = canvas s
       \<and> currentBoundGeo s' = currentBoundGeo s \<and> document s' = document s
       \<and> time s' = time s \<and> nextHandle s' = nextHandle s"
  using assms by (auto simp: release_buffers_def Let_def split: option.splits)

lemma destroyGeometry_fields:
  assumes "destroyGeometry s r = (res, s')"
  shows "canvas s' = canvas s \<and> document s' = document s
       \<and> time s' = time s \<and> nextHandle s' = nextHandle s"
  using assms
  by (auto simp: destroyGeometry_def Let_def split: option.splits prod.splits sum.splits if_splits
      dest!: release_buffers_fields)

lemma destroyGeometry_trace:
  "\<exists>hs. trace (snd (destroyGeometry s r)) = trace s @ map BufferDestroy hs"
proof (cases r)
  case None
  then show ?thesis by (simp add: destroyGeometry_def)
next
  case (Some g)
  let ?s1 = "if currentBoundGeo s = Some (geoId g) then s\<lparr>currentBoundGeo := None\<rparr> else s"
  have t: "trace ?s1 = trace s" by simp
  obtain res s2 where rb: "release_buffers ?s1 g = (res, s2)"
    by (cases "release_buffers ?s1 g")
  from release_buffers_trace [of ?s1 g] rb obtain hs where
    "trace s2 = trace s @ map BufferDestroy hs"
    unfolding t by auto
  then show ?thesis using Some rb
    by (cases res) (auto simp: destroyGeometry_def Let_def)
qed

lemma ex_s0_val:
  "ex_s0 = \<lparr>time = 0, canvas = Some ex_canvas, geometries = [], currentBoundGeo = None,
            document = [''c1''], nextHandle = 0, trace = []\<rparr>"
  by (simp add: ex_s0_def init_def)

lemma ex_sA_val:
  "ex_sA = \<lparr>time = 0, canvas = Some ex_canvas, geometries = [(''c1:A'', Some ex_gA)],
            currentBoundGeo = None, document = [''c1''], nextHandle = 3,
            trace = [NewArrayBuffer \<lparr>handle = 0, target = ARRAY_BUFFER, numItems = 9, itemSize = 3\<rparr>,
                     NewArrayBuffer \<lparr>handle = 1, target = ARRAY_BUFFER, numItems = 9, itemSize = 3\<rparr>,
                     NewArrayBuffer ex_ibA]\<rparr>"
  by (simp add: ex_sA_def ex_s0_val ex_tri_def ex_gA_def ex_ibA_def ex_canvas_def createGeometry_def
      alloc_from_def alloc_uv_def createArrayBuffer_def getPrimitiveType_def Let_def emit_def)

subsection \<open>A failing createGeometry\<close>

text \<open>
  C4. Whenever \<open>createGeometry\<close> throws, for whatever reason (no canvas, no primitive, an
  absent array, a rejected allocation, an unsupported primitive), the dictionary, the canvas
  and the bound marker are what they were before the call, and the calls the function made
  are the constructions of some buffers \<open>bs\<close> followed by \<open>destroy()\<close> on each of exactly
  those buffers: every buffer allocated during the call is released before the exception
  leaves, and no record is inserted.
\<close>

theorem createGeometry_failure_unwinds:
  assumes "createGeometry allow s ty d = (Inl e, s')"
  shows "geometries s' = geometries s \<and> canvas s' = canvas s \<and>
         currentBoundGeo s' = currentBoundGeo s \<and>
         (\<exists>bs. trace s' = trace s @ map NewArrayBuffer bs @ map (\<lambda>b. BufferDestroy (handle b)) bs)"
  using assms
  apply (simp add: createGeometry_def catch_block_def Let_def split: option.splits if_splits prod.splits sum.splits)
  apply (auto dest!: alloc_from_Inl alloc_from_Inr alloc_uv_Inl alloc_uv_Inr simp: released_shape)
  done

text \<open>
  The primitive \<open>hexagon\<close>: the three buffers of the triangle are constructed, the switch
  throws, and the three are destroyed. And a rejected allocation of the index buffer: the
  vertex and the normal buffer are constructed and destroyed.
\<close>

theorem createGeometry_failure_unwinds_witness:
  "fst (createGeometry (\<lambda>_. True) ex_s0 ''A'' ex_hex) = Inl InvalidGeometryConfigException
   \<and> geometries (snd (createGeometry (\<lambda>_. True) ex_s0 ''A'' ex_hex)) = geometries ex_s0
   \<and> trace (snd (createGeometry (\<lambda>_. True) ex_s0 ''A'' ex_hex))
       = trace ex_s0
         @ map NewArrayBuffer
             [\<lparr>handle = 0, target = ARRAY_BUFFER, numItems = 9, itemSize = 3\<rparr>,
              \<lparr>handle = 1, target = ARRAY_BUFFER, numItems = 9, itemSize = 3\<rparr>,
              \<lparr>handle = 2, target = ELEMENT_ARRAY_BUFFER, numItems = 3, itemSize = 1\<rparr>]
         @ [BufferDestroy 0, BufferDestroy 1, BufferDestroy 2]
   \<and> fst (createGeometry (\<lambda>d. d \<noteq> ''geometry index buffer'') ex_sA ''B'' ex_tri)
       = Inl AllocationFailure
   \<and> geometries (snd (createGeometry (\<lambda>d. d \<noteq> ''geometry index buffer'') ex_sA ''B'' ex_tri))
       = geometries ex_sA
   \<and> (\<exists>bs. trace (snd (createGeometry (\<lambda>d. d \<noteq> ''geometry index buffer'') ex_sA ''B'' ex_tri))
            = trace ex_sA @ map NewArrayBuffer bs @ map (\<lambda>b. BufferDestroy (handle b)) bs)"
proof -
  have f: "fst (createGeometry (\<lambda>_. True) ex_s0 ''A'' ex_hex) = Inl InvalidGeometryConfigException"
    by (simp add: ex_defs createGeometry_def alloc_from_def alloc_uv_def createArrayBuffer_def
        getPrimitiveType_def Let_def)
  then have h: "createGeometry (\<lambda>_. True) ex_s0 ''A'' ex_hex
     = (Inl InvalidGeometryConfigException, snd (createGeometry (\<lambda>_. True) ex_s0 ''A'' ex_hex))"
    by (metis prod.collapse)
  have t: "trace (snd (createGeometry (\<lambda>_. True) ex_s0 ''A'' ex_hex))
       = trace ex_s0
         @ map NewArrayBuffer
             [\<lparr>handle = 0, target = ARRAY_BUFFER, numItems = 9, itemSize = 3\<rparr>,
              \<lparr>handle = 1, target = ARRAY_BUFFER, numItems = 9, itemSize = 3\<rparr>,
              \<lparr>handle = 2, target = ELEMENT_ARRAY_BUFFER, numItems = 3, itemSize = 1\<rparr>]
         @ [BufferDestroy 0, BufferDestroy 1, BufferDestroy 2]"
    by (simp add: ex_defs createGeometry_def alloc_from_def alloc_uv_def createArrayBuffer_def
        getPrimitiveType_def catch_block_def Let_def)
  have f2: "fst (createGeometry (\<lambda>d. d \<noteq> ''geometry index buffer'') ex_sA ''B'' ex_tri)
      = Inl AllocationFailure"
    by (simp add: ex_sA_val ex_tri_def createGeometry_def alloc_from_def alloc_uv_def
        createArrayBuffer_def Let_def)
  then have h2: "createGeometry (\<lambda>d. d \<noteq> ''geometry index buffer'') ex_sA ''B'' ex_tri
     = (Inl AllocationFailure,
        snd (createGeometry (\<lambda>d. d \<noteq> ''geometry index buffer'') ex_sA ''B'' ex_tri))"
    by (metis prod.collapse)
  from createGeometry_failure_unwinds [OF h] createGeometry_failure_unwinds [OF h2] f f2 t
  show ?thesis by blast
qed

subsection \<open>Drawing an identifier that does not resolve\<close>

text \<open>
  C3, as the claim states it, fails. With a canvas active and a record \<open>c1:A\<close> in the
  dictionary, drawing \<open>c1:B\<close> throws the runtime's \<open>TypeError\<close> (the assignment
  \<open>geo.lastUsed = time\<close> on \<open>undefined\<close>), which is none of the exception classes of
  \<open>SceneJS.exceptions\<close>; the file has no check for an unknown identifier.
\<close>

theorem draw_unknown_raises_TypeError:
  "canvas ex_sA \<noteq> None \<and> fst (drawGeometry ex_sA ''c1:B'') = Inl TypeError
   \<and> TypeError \<noteq> NoCanvasActiveException \<and> TypeError \<noteq> NodeConfigExpectedException
   \<and> TypeError \<noteq> InvalidGeometryConfigException"
  by (simp add: ex_sA_val drawGeometry_def obj_ref_def Let_def)

lemma colon_not_inherited: "CHR '':'' \<in> set gid \<Longrightarrow> gid \<notin> set object_prototype"
  by (auto simp: object_prototype_def)

text \<open>
  C3, amended. With a canvas active, drawing an identifier that the dictionary holds no
  record for (the key is absent, or its entry is \<open>null\<close>) throws the runtime's
  \<open>TypeError\<close>. When the identifier has the form the backend gives out (it contains the
  colon between canvas id and type), the throw is at once: the only thing done before is
  firing \<open>SHADER_ACTIVATE\<close>, and nothing else of the state changes.
\<close>

theorem draw_unresolved_fails_after_activate:
  assumes "canvas s \<noteq> None" and "obj_ref (geometries s) gid = None"
  shows "fst (drawGeometry s gid) = Inl TypeError
       \<and> (CHR '':'' \<in> set gid \<longrightarrow>
            drawGeometry s gid = (Inl TypeError, emit s [FireEvent SHADER_ACTIVATE]))"
proof -
  from assms(1) obtain c where c: "canvas s = Some c" by auto
  have 1: "fst (drawGeometry s gid) = Inl TypeError"
    using c assms(2) by (simp add: drawGeometry_def Let_def)
  have 2: "drawGeometry s gid = (Inl TypeError, emit s [FireEvent SHADER_ACTIVATE])"
    if "CHR '':'' \<in> set gid"
    using c assms(2) colon_not_inherited [OF that] by (simp add: drawGeometry_def Let_def)
  from 1 2 show ?thesis by blast
qed

text \<open>
  An entry that the evictor has set to \<open>null\<close>, next to a live record: the draw throws
  after the one event. And a name of \<open>Object.prototype\<close>, which has no colon: the draw
  throws as well, but only at the bind, after the assignment, the eight slots and the export.
\<close>

theorem draw_unresolved_fails_after_activate_witness:
  "canvas ex_s7 \<noteq> None \<and> map_of (geometries ex_s7) ''c1:A'' = Some None
   \<and> obj_ref (geometries ex_s7) ''c1:A'' = None
   \<and> drawGeometry ex_s7 ''c1:A'' = (Inl TypeError, emit ex_s7 [FireEvent SHADER_ACTIVATE])
   \<and> canvas ex_sA \<noteq> None \<and> obj_ref (geometries ex_sA) ''toString'' = None
   \<and> fst (drawGeometry ex_sA ''toString'') = Inl TypeError
   \<and> drop (length (trace ex_sA)) (trace (snd (drawGeometry ex_sA ''toString'')))
       = FireEvent SHADER_ACTIVATE # SetLastUsed ''toString'' 0
         # map DisableVertexAttribArray [0..<8]
         @ [FireEvent (GEOMETRY_EXPORTED (InheritedObject ''toString''))]"
proof -
  have a: "canvas ex_s7 \<noteq> None" by (simp add: ex_s7_def ex_sA_val eval_defs)
  have m: "map_of (geometries ex_s7) ''c1:A'' = Some None"
    by (simp add: ex_s7_def ex_sA_val eval_defs)
  then have b: "obj_ref (geometries ex_s7) ''c1:A'' = None" by (simp add: obj_ref_def)
  have k: "CHR '':'' \<in> set ''c1:A''" by simp
  have a': "canvas ex_sA \<noteq> None" by (simp add: ex_sA_val)
  have b': "obj_ref (geometries ex_sA) ''toString'' = None" by (simp add: ex_sA_val obj_ref_def)
  have t: "drop (length (trace ex_sA)) (trace (snd (drawGeometry ex_sA ''toString'')))
       = FireEvent SHADER_ACTIVATE # SetLastUsed ''toString'' 0
         # map DisableVertexAttribArray [0..<8]
         @ [FireEvent (GEOMETRY_EXPORTED (InheritedObject ''toString''))]"
    by (simp add: ex_sA_val drawGeometry_def obj_ref_def object_prototype_def Let_def emit_def)
  from draw_unresolved_fails_after_activate [OF a b] draw_unresolved_fails_after_activate [OF a' b']
    a m b k a' b' t
  show ?thesis by simp
qed

text \<open>
  C10. With a canvas active, whatever the identifier, the first thing \<open>drawGeometry\<close> adds
  to the trace is \<open>SHADER_ACTIVATE\<close>, and it adds it once: the event precedes the lookup,
  so it is fired also by a draw that then throws.
\<close>

theorem draw_fires_shader_activate_first:
  assumes "canvas s \<noteq> None"
  shows "\<exists>rest. trace (snd (drawGeometry s gid)) = trace s @ FireEvent SHADER_ACTIVATE # rest
           \<and> FireEvent SHADER_ACTIVATE \<notin> set rest"
proof -
  from assms obtain c where c: "canvas s = Some c" by auto
  show ?thesis
  proof (cases "obj_ref (geometries s) gid")
    case None
    with c show ?thesis by (auto simp: drawGeometry_def Let_def)
  next
    case (Some g0)
    show ?thesis
    proof (cases "indexBuf g0")
      case None
      with c Some show ?thesis by (auto simp: drawGeometry_def Let_def)
    next
      case ib: (Some ib)
      show ?thesis
      proof (cases "fixed g0")
        case True
        with c Some ib show ?thesis by (auto simp: drawGeometry_def Let_def)
      next
        case False
        let ?g = "g0\<lparr>lastUsed := time s\<rparr>"
        let ?s2 = "(emit s [FireEvent SHADER_ACTIVATE])\<lparr>geometries := obj_set (geometries s) gid (Some ?g)\<rparr>"
        let ?s3 = "if currentBoundGeo ?s2 \<noteq> Some gid
                   then (emit ?s2 (map DisableVertexAttribArray [0..<8]
                           @ [FireEvent (GEOMETRY_EXPORTED (OwnRecord ?g)), BufferBind (handle ib)]))
                        \<lparr>currentBoundGeo := Some gid\<rparr>
                   else ?s2"
        let ?s4 = "emit ?s3 [DrawElements (geoPrimitive ?g) (numItems ib), Flush]"
        obtain hs where hs: "trace (snd (destroyGeometry ?s4 (Some ?g))) = trace ?s4 @ map BufferDestroy hs"
          using destroyGeometry_trace by blast
        have d: "trace (snd (drawGeometry s gid)) = trace (snd (destroyGeometry ?s4 (Some ?g)))"
          using c Some ib False
          by (simp add: drawGeometry_def Let_def split: prod.splits sum.splits)
        show ?thesis unfolding d hs by auto
      qed
    qed
  qed
qed

theorem draw_fires_shader_activate_first_witness:
  "canvas ex_s0 \<noteq> None \<and> fst (drawGeometry ex_s0 ''c1:zz'') = Inl TypeError
   \<and> (\<exists>rest. trace (snd (drawGeometry ex_s0 ''c1:zz''))
               = trace ex_s0 @ FireEvent SHADER_ACTIVATE # rest
             \<and> FireEvent SHADER_ACTIVATE \<notin> set rest)"
proof -
  have a: "canvas ex_s0 \<noteq> None" by (simp add: ex_s0_val)
  have b: "fst (drawGeometry ex_s0 ''c1:zz'') = Inl TypeError"
    by (simp add: ex_s0_val drawGeometry_def obj_ref_def Let_def)
  from a b draw_fires_shader_activate_first [OF a, of "''c1:zz''"] show ?thesis by simp
qed

subsection \<open>After SCENE_ACTIVATED\<close>

lemma reset_loop_canvas:
  "reset_loop s ks = (r, s') \<Longrightarrow> canvas s' = canvas s"
proof (induction ks arbitrary: s)
  case Nil
  then show ?case by simp
next
  case (Cons k ks)
  obtain res s1 where d: "destroyGeometry s (obj_ref (geometries s) k) = (res, s1)"
    by (cases "destroyGeometry s (obj_ref (geometries s) k)")
  then have c: "canvas s1 = canvas s" by (simp add: destroyGeometry_fields)
  show ?case
  proof (cases res)
    case (Inl e)
    with Cons.prems d c show ?thesis by simp
  next
    case (Inr u)
    with Cons.prems d have "reset_loop s1 ks = (r, s')" by simp
    with Cons.IH c show ?thesis by simp
  qed
qed

lemma onEvent_keeps_no_canvas:
  assumes "canvas s = None" and "\<forall>c. e \<noteq> CANVAS_ACTIVATED c"
  shows "canvas (snd (onEvent s e)) = None"
proof (cases e)
  case RESET
  obtain r s' where l: "reset_loop s (map fst (geometries s)) = (r, s')"
    by (cases "reset_loop s (map fst (geometries s))")
  with reset_loop_canvas have "canvas s' = canvas s" by blast
  with RESET l assms show ?thesis by (cases r) simp_all
qed (use assms in simp_all)

lemma onEvents_keep_no_canvas:
  "canvas s = None \<Longrightarrow> \<forall>e\<in>set evs. \<forall>c. e \<noteq> CANVAS_ACTIVATED c
     \<Longrightarrow> canvas (onEvents s evs) = None"
  by (induction evs arbitrary: s) (simp_all add: onEvent_keeps_no_canvas)

text \<open>
  C9. The handler of \<open>SCENE_ACTIVATED\<close> sets both \<open>canvas\<close> and \<open>currentBoundGeo\<close> to
  \<open>null\<close>. After it, and after any further events among which there is no
  \<open>CANVAS_ACTIVATED\<close>, each of \<open>findGeometry\<close>, \<open>createGeometry\<close> and \<open>drawGeometry\<close>
  throws \<open>NoCanvasActiveException\<close>.
\<close>

theorem scene_activated_no_canvas:
  assumes "\<forall>e\<in>set evs. \<forall>c. e \<noteq> CANVAS_ACTIVATED c"
  shows "canvas (snd (onEvent s SCENE_ACTIVATED)) = None
       \<and> currentBoundGeo (snd (onEvent s SCENE_ACTIVATED)) = None
       \<and> fst (findGeometry (onEvents (snd (onEvent s SCENE_ACTIVATED)) evs) ty)
           = Inl NoCanvasActiveException
       \<and> fst (createGeometry allow (onEvents (snd (onEvent s SCENE_ACTIVATED)) evs) ty d)
           = Inl NoCanvasActiveException
       \<and> fst (drawGeometry (onEvents (snd (onEvent s SCENE_ACTIVATED)) evs) gid)
           = Inl NoCanvasActiveException"
proof -
  have "canvas (snd (onEvent s SCENE_ACTIVATED)) = None" by simp
  from onEvents_keep_no_canvas [OF this assms]
  have "canvas (onEvents (snd (onEvent s SCENE_ACTIVATED)) evs) = None" .
  then show ?thesis
    by (simp add: findGeometry_def createGeometry_def drawGeometry_def)
qed

theorem scene_activated_no_canvas_witness:
  "canvas ex_sA \<noteq> None
   \<and> canvas (snd (onEvent ex_sA SCENE_ACTIVATED)) = None
   \<and> currentBoundGeo (snd (onEvent ex_sA SCENE_ACTIVATED)) = None
   \<and> fst (findGeometry (onEvents (snd (onEvent ex_sA SCENE_ACTIVATED))
             [TIME_UPDATED 3, SHADER_ACTIVATED, RESET]) ''A'') = Inl NoCanvasActiveException
   \<and> fst (createGeometry (\<lambda>_. True) (onEvents (snd (onEvent ex_sA SCENE_ACTIVATED))
             [TIME_UPDATED 3, SHADER_ACTIVATED, RESET]) ''A'' ex_tri) = Inl NoCanvasActiveException
   \<and> fst (drawGeometry (onEvents (snd (onEvent ex_sA SCENE_ACTIVATED))
             [TIME_UPDATED 3, SHADER_ACTIVATED, RESET]) ''c1:A'') = Inl NoCanvasActiveException"
proof -
  have a: "\<forall>e\<in>set [TIME_UPDATED 3, SHADER_ACTIVATED, RESET]. \<forall>c. e \<noteq> CANVAS_ACTIVATED c"
    by simp
  have b: "canvas ex_sA \<noteq> None" by (simp add: ex_sA_val)
  from a b scene_activated_no_canvas [OF a, of ex_sA "''A''" "\<lambda>_. True" ex_tri "''c1:A''"]
  show ?thesis by blast
qed

subsection \<open>Two draws in a row\<close>

text \<open>
  C6, as the claim states it, fails. In the state reached by drawing \<open>c1:A\<close> once, the
  marker already is \<open>c1:A\<close>; the next two draws of \<open>c1:A\<close> both succeed and fire no
  \<open>GEOMETRY_EXPORTED\<close> at all, not one.
\<close>

theorem draw_twice_when_bound_exports_nothing:
  "currentBoundGeo ex_sA1 = Some ''c1:A''
   \<and> fst (drawGeometry ex_sA1 ''c1:A'') = Inr ()
   \<and> fst (drawGeometry (snd (drawGeometry ex_sA1 ''c1:A'')) ''c1:A'') = Inr ()
   \<and> exports (drop (length (trace ex_sA1))
        (trace (snd (drawGeometry (snd (drawGeometry ex_sA1 ''c1:A'')) ''c1:A'')))) = 0"
  by (simp add: ex_sA1_def ex_sA_val drawGeometry_def obj_ref_def Let_def emit_def ex_gA_def
      ex_ibA_def exports_def)

text \<open>
  C6, amended. For a record that is in the dictionary, fixed and with an index buffer, two
  draws in a row both succeed; the second adds to the trace only \<open>SHADER_ACTIVATE\<close>, the
  draw call and the flush (no attribute slot disabled, no export, no bind); and over both
  draws \<open>GEOMETRY_EXPORTED\<close> is fired once if the marker was not this identifier before
  the first draw, and not at all if it was.
\<close>

theorem draw_twice_exports:
  assumes "canvas s \<noteq> None" and "obj_ref (geometries s) gid = Some g"
    and "fixed g" and "indexBuf g = Some ib"
  shows "\<exists>s1 s2. drawGeometry s gid = (Inr (), s1) \<and> drawGeometry s1 gid = (Inr (), s2)
          \<and> trace s2 = trace s1 @ [FireEvent SHADER_ACTIVATE,
                                    DrawElements (geoPrimitive g) (numItems ib), Flush]
          \<and> exports (drop (length (trace s)) (trace s2))
              = (if currentBoundGeo s = Some gid then 0 else 1)"
proof -
  from assms(1) obtain c where c: "canvas s = Some c" by auto
  define g1 where "g1 = g\<lparr>lastUsed := time s\<rparr>"
  define bind where "bind = (if currentBoundGeo s = Some gid then []
     else map DisableVertexAttribArray [0..<8]
            @ [FireEvent (GEOMETRY_EXPORTED (OwnRecord g1)), BufferBind (handle ib)])"
  define s1 where "s1 = s\<lparr>geometries := obj_set (geometries s) gid (Some g1),
     currentBoundGeo := Some gid,
     trace := trace s @ FireEvent SHADER_ACTIVATE # bind @ [DrawElements (geoPrimitive g) (numItems ib), Flush]\<rparr>"
  have d1: "drawGeometry s gid = (Inr (), s1)"
    using c assms(2-4) by (simp add: drawGeometry_def Let_def s1_def g1_def bind_def emit_def)
  have r1: "obj_ref (geometries s1) gid = Some g1"
    by (simp add: s1_def obj_ref_obj_set)
  define s2 where "s2 = s1\<lparr>trace := trace s1 @ [FireEvent SHADER_ACTIVATE,
     DrawElements (geoPrimitive g) (numItems ib), Flush]\<rparr>"
  have same: "obj_set (geometries s1) gid (Some g1) = geometries s1"
    by (simp add: s1_def obj_set_idem)
  have d2: "drawGeometry s1 gid = (Inr (), s2)"
    using c assms(3,4)
    by (simp add: drawGeometry_def Let_def s2_def emit_def s1_def g1_def obj_ref_obj_set obj_set_idem)
  have e: "exports (drop (length (trace s)) (trace s2)) = (if currentBoundGeo s = Some gid then 0 else 1)"
    by (simp add: s2_def s1_def bind_def exports_def)
  from d1 d2 e show ?thesis by (auto simp: s2_def)
qed

theorem draw_twice_exports_witness:
  "canvas ex_sA \<noteq> None \<and> obj_ref (geometries ex_sA) ''c1:A'' = Some ex_gA
   \<and> fixed ex_gA \<and> indexBuf ex_gA = Some ex_ibA
   \<and> (\<exists>s1 s2. drawGeometry ex_sA ''c1:A'' = (Inr (), s1) \<and> drawGeometry s1 ''c1:A'' = (Inr (), s2)
        \<and> trace s2 = trace s1 @ [FireEvent SHADER_ACTIVATE, DrawElements TRIANGLES 3, Flush]
        \<and> exports (drop (length (trace ex_sA)) (trace s2)) = 1)"
proof -
  have a: "canvas ex_sA \<noteq> None" by (simp add: ex_sA_val)
  have b: "obj_ref (geometries ex_sA) ''c1:A'' = Some ex_gA" by (simp add: ex_sA_val obj_ref_def)
  have c: "fixed ex_gA" by (simp add: ex_gA_def)
  have d: "indexBuf ex_gA = Some ex_ibA" by (simp add: ex_gA_def)
  have e: "currentBoundGeo ex_sA \<noteq> Some ''c1:A''" by (simp add: ex_sA_val)
  have f: "geoPrimitive ex_gA = TRIANGLES" "numItems ex_ibA = 3" by (simp_all add: ex_gA_def ex_ibA_def)
  from draw_twice_exports [OF a b c d] a b c d e f show ?thesis by simp
qed

subsection \<open>createGeometry twice for one type\<close>

lemma alloc_from_Inr_handle:
  "alloc_from allow dsc s tg arr sz = (Inr b, s') \<Longrightarrow>
     s' = (emit s [NewArrayBuffer b])\<lparr>nextHandle := Suc (nextHandle s)\<rparr> \<and> handle b = nextHandle s"
  by (auto simp: alloc_from_def createArrayBuffer_def Let_def split: option.splits if_splits)

lemma keys_obj_set: "set (map fst (obj_set m k v)) = insert k (set (map fst m))"
  by (induction m k v rule: obj_set.induct) auto

lemma distinct_obj_set: "distinct (map fst m) \<Longrightarrow> distinct (map fst (obj_set m k v))"
proof (induction m)
  case Nil
  then show ?case by simp
next
  case (Cons p m)
  obtain k' v' where p: "p = (k', v')" by (cases p)
  show ?case
  proof (cases "k' = k")
    case True
    with Cons.prems p show ?thesis by simp
  next
    case False
    from Cons have "distinct (map fst (obj_set m k v))" by simp
    moreover from Cons.prems p False have "k' \<notin> set (map fst (obj_set m k v))"
      unfolding keys_obj_set by simp
    ultimately show ?thesis using p False by simp
  qed
qed

lemma created_shape:
  "\<exists>bs. [NewArrayBuffer a, NewArrayBuffer b, NewArrayBuffer c] = map NewArrayBuffer bs"
  "\<exists>bs. [NewArrayBuffer a, NewArrayBuffer b, NewArrayBuffer c, NewArrayBuffer d]
     = map NewArrayBuffer bs"
  by (rule exI[of _ "[a, b, c]"], simp, rule exI[of _ "[a, b, c, d]"], simp)

lemma createGeometry_Inr:
  assumes "createGeometry allow s ty d = (Inr i, s')"
  shows "\<exists>c g vb bs. canvas s = Some c \<and> i = canvasId c @ '':'' @ ty
           \<and> geometries s' = obj_set (geometries s) i (Some g) \<and> canvas s' = canvas s
           \<and> vertexBuf g = Some vb \<and> handle vb = nextHandle s \<and> nextHandle s < nextHandle s'
           \<and> NewArrayBuffer vb \<in> set bs
           \<and> trace s' = trace s @ bs \<and> (\<forall>h. BufferDestroy h \<notin> set bs)"
  using assms
  apply (simp add: createGeometry_def Let_def split: option.splits if_splits prod.splits sum.splits)
  apply (auto dest!: alloc_from_Inr_handle alloc_uv_Inr)
  done

lemma filter_absent_key:
  "k \<notin> set (map fst m) \<Longrightarrow> filter (\<lambda>(k', v). k' = k \<and> P v) m = []"
  by (induction m) auto

lemma count_obj_set:
  "distinct (map fst m) \<Longrightarrow>
     length (filter (\<lambda>(k', v). k' = k \<and> v \<noteq> None) (obj_set m k (Some g))) = 1"
  by (induction m) (auto simp: filter_absent_key)

text \<open>
  C2, as the claim states it, fails. Two calls for the type \<open>A\<close> on the canvas \<open>c1\<close> both
  return \<open>c1:A\<close>; the buffers of the first record have the handles 0, 1 and 2, and
  \<open>destroy()\<close> was called on none of them when the second call has returned.
\<close>

theorem create_twice_keeps_first_buffers:
  "fst (createGeometry (\<lambda>_. True) ex_s0 ''A'' ex_tri) = Inr ''c1:A''
   \<and> fst (createGeometry (\<lambda>_. True) ex_sA ''A'' ex_tri) = Inr ''c1:A''
   \<and> map_option handle (vertexBuf ex_gA) = Some 0
   \<and> map_option handle (normalBuf ex_gA) = Some 1
   \<and> map_option handle (indexBuf ex_gA) = Some 2
   \<and> BufferDestroy 0 \<notin> set (trace ex_sAA)
   \<and> BufferDestroy 1 \<notin> set (trace ex_sAA)
   \<and> BufferDestroy 2 \<notin> set (trace ex_sAA)"
  by (simp add: ex_sAA_def ex_sA_val ex_s0_val ex_tri_def ex_gA_def ex_ibA_def ex_canvas_def
      createGeometry_def alloc_from_def alloc_uv_def createArrayBuffer_def getPrimitiveType_def
      Let_def emit_def)

text \<open>
  C2, amended. When two calls of \<open>createGeometry\<close> for the same type on the same canvas
  both return, they return the same identifier, the dictionary then holds exactly one
  record under it, and that record is the one the second call built (its vertex buffer has
  a later handle than that of the first record). Neither call calls \<open>destroy()\<close>: the
  buffers of the first record are constructed and not released.
\<close>

theorem create_twice_replaces_without_release:
  assumes "distinct (map fst (geometries s))"
    and "createGeometry a1 s ty d1 = (Inr i1, s1)"
    and "createGeometry a2 s1 ty d2 = (Inr i2, s2)"
  shows "i2 = i1
       \<and> length (filter (\<lambda>(k, v). k = i1 \<and> v \<noteq> None) (geometries s2)) = 1
       \<and> (\<exists>g1 g2 v1 v2. obj_ref (geometries s1) i1 = Some g1 \<and> vertexBuf g1 = Some v1
             \<and> obj_ref (geometries s2) i1 = Some g2 \<and> vertexBuf g2 = Some v2
             \<and> handle v1 < handle v2 \<and> NewArrayBuffer v1 \<in> set (trace s1))
       \<and> (\<forall>h. BufferDestroy h \<notin> set (drop (length (trace s)) (trace s2)))"
proof -
  from createGeometry_Inr [OF assms(2)] obtain c g1 v1 bs1 where
    1: "canvas s = Some c" "i1 = canvasId c @ '':'' @ ty"
      "geometries s1 = obj_set (geometries s) i1 (Some g1)" "canvas s1 = canvas s"
      "vertexBuf g1 = Some v1" "handle v1 = nextHandle s" "nextHandle s < nextHandle s1"
      "NewArrayBuffer v1 \<in> set bs1"
      "trace s1 = trace s @ bs1" "\<forall>h. BufferDestroy h \<notin> set bs1"
    by blast
  from createGeometry_Inr [OF assms(3)] obtain c' g2 v2 bs2 where
    2: "canvas s1 = Some c'" "i2 = canvasId c' @ '':'' @ ty"
      "geometries s2 = obj_set (geometries s1) i2 (Some g2)"
      "vertexBuf g2 = Some v2" "handle v2 = nextHandle s1"
      "trace s2 = trace s1 @ bs2" "\<forall>h. BufferDestroy h \<notin> set bs2"
    by blast
  from 1 2 have i: "i2 = i1" by simp
  have d1: "distinct (map fst (geometries s1))"
    unfolding 1(3) using assms(1) by (rule distinct_obj_set)
  have n: "length (filter (\<lambda>(k, v). k = i1 \<and> v \<noteq> None) (geometries s2)) = 1"
    unfolding 2(3) i using d1 by (rule count_obj_set)
  have r1: "obj_ref (geometries s1) i1 = Some g1" by (simp add: 1(3) obj_ref_obj_set)
  have r2: "obj_ref (geometries s2) i1 = Some g2" by (simp add: 2(3) i obj_ref_obj_set)
  have h: "handle v1 < handle v2" using 1(6,7) 2(5) by simp
  have t: "drop (length (trace s)) (trace s2) = bs1 @ bs2" by (simp add: 1(9) 2(6))
  have m: "NewArrayBuffer v1 \<in> set (trace s1)" using 1(8,9) by simp
  from i n r1 r2 h m 1(5) 2(4) 1(10) 2(7) show ?thesis unfolding t by auto
qed

theorem create_twice_replaces_without_release_witness:
  "distinct (map fst (geometries ex_s0))
   \<and> createGeometry (\<lambda>_. True) ex_s0 ''A'' ex_tri = (Inr ''c1:A'', ex_sA)
   \<and> createGeometry (\<lambda>_. True) ex_sA ''A'' ex_tri = (Inr ''c1:A'', ex_sAA)
   \<and> length (filter (\<lambda>(k, v). k = ''c1:A'' \<and> v \<noteq> None) (geometries ex_sAA)) = 1
   \<and> (\<exists>g1 g2 v1 v2. obj_ref (geometries ex_sA) ''c1:A'' = Some g1 \<and> vertexBuf g1 = Some v1
         \<and> obj_ref (geometries ex_sAA) ''c1:A'' = Some g2 \<and> vertexBuf g2 = Some v2
         \<and> handle v1 < handle v2 \<and> NewArrayBuffer v1 \<in> set (trace ex_sA))
   \<and> (\<forall>h. BufferDestroy h \<notin> set (drop (length (trace ex_s0)) (trace ex_sAA)))"
proof -
  have a: "distinct (map fst (geometries ex_s0))" by (simp add: ex_s0_val)
  have "fst (createGeometry (\<lambda>_. True) ex_s0 ''A'' ex_tri) = Inr ''c1:A''"
    by (simp add: ex_s0_val ex_tri_def ex_canvas_def createGeometry_def alloc_from_def
        alloc_uv_def createArrayBuffer_def getPrimitiveType_def Let_def)
  then have b: "createGeometry (\<lambda>_. True) ex_s0 ''A'' ex_tri = (Inr ''c1:A'', ex_sA)"
    unfolding ex_sA_def by (metis prod.collapse)
  have "fst (createGeometry (\<lambda>_. True) ex_sA ''A'' ex_tri) = Inr ''c1:A''"
    by (simp add: ex_sA_val ex_tri_def ex_canvas_def createGeometry_def alloc_from_def
        alloc_uv_def createArrayBuffer_def getPrimitiveType_def Let_def)
  then have c: "createGeometry (\<lambda>_. True) ex_sA ''A'' ex_tri = (Inr ''c1:A'', ex_sAA)"
    unfolding ex_sAA_def by (metis prod.collapse)
  from create_twice_replaces_without_release [OF a b c] a b c show ?thesis by simp
qed

subsection \<open>destroyGeometry a second time\<close>

text \<open>
  \<open>destroyGeometry\<close> is private to the closure, and each of its three callers (the reset
  loop, the evictor, the end of \<open>drawGeometry\<close>) passes what the dictionary holds under an
  identifier. Once it has returned for a record, the dictionary holds \<open>null\<close> under the
  record's identifier, so a second destroy of that identifier is the call with \<open>null\<close>:
  it throws at its first statement and leaves the state as it is.
\<close>

lemma destroyGeometry_nulls_entry:
  assumes "destroyGeometry s (Some g) = (Inr (), s1)"
  shows "geometries s1 = obj_set (geometries s) (geoId g) None"
  using assms
  by (auto simp: destroyGeometry_def Let_def split: prod.splits sum.splits if_splits
      dest!: release_buffers_fields)

lemma destroyGeometry_again:
  assumes "destroyGeometry s (Some g) = (Inr (), s1)"
  shows "destroyGeometry s1 (obj_ref (geometries s1) (geoId g)) = (Inl TypeError, s1)"
  by (simp add: destroyGeometry_nulls_entry [OF assms] obj_ref_obj_set destroyGeometry_def)


subsection \<open>The evictor\<close>













text \<open>
  C1. The evictor does not read \<open>currentBoundGeo\<close>. Here \<open>c1:A\<close> is the bound record and
  the one least recently used (5, against 7 for \<open>c1:B\<close>, at time 10): the evictor
  returns \<open>true\<close>, the entry of \<open>c1:A\<close> is \<open>null\<close> and its three buffers are destroyed.
  The header comment of the file says that the geometry whose identifier is in
  \<open>currentBoundGeo\<close> cannot be evicted.
\<close>

theorem evictor_evicts_bound_record:
  "currentBoundGeo ex_s1 = Some ''c1:A''
   \<and> map (\<lambda>(k, v). (k, map_option lastUsed v)) (geometries ex_s1)
       = [(''c1:A'', Some 5), (''c1:B'', Some 7)]
   \<and> time ex_s1 = 10
   \<and> fst (evictor ex_s1) = Inr True
   \<and> map (\<lambda>(k, v). (k, map_option lastUsed v)) (geometries (snd (evictor ex_s1)))
       = [(''c1:A'', None), (''c1:B'', Some 7)]
   \<and> drop (length (trace ex_s1)) (trace (snd (evictor ex_s1)))
       = [BufferDestroy 0, BufferDestroy 1, BufferDestroy 2]"
  by (simp add: ex_s1_def ex_sA_val eval_defs)

subsection \<open>The marker after a lifecycle event\<close>

text \<open>Whenever one of the six handlers returns normally, the marker is unset.\<close>

lemma onEvent_clears_marker:
  assumes "\<forall>t. e \<noteq> TIME_UPDATED t" and "fst (onEvent s e) = Inr ()"
  shows "currentBoundGeo (snd (onEvent s e)) = None"
  using assms by (cases e) (auto split: prod.splits sum.splits)


end
